theory Spec2Isabelle
  imports Main
begin

section \<open>Values of the host language\<close>

text \<open>
  The library \<^verbatim>\<open>src/src/aop.js\<close> is dynamically typed: every parameter of
  \<^verbatim>\<open>before\<close>, \<^verbatim>\<open>after\<close>, \<^verbatim>\<open>handle\<close> and \<^verbatim>\<open>around\<close> can hold any value.
  The universe of values:
  \<^item> the primitives \<open>undefined\<close>, \<open>null\<close>, booleans, numbers (integers only) and strings;
  \<^item> \<open>Obj a\<close>, the object with identity \<open>a\<close>;
  \<^item> \<open>Arr xs\<close>, an instance of \<open>Array\<close> with the elements \<open>xs\<close>, and \<open>Arguments xs\<close>, the
    \<^verbatim>\<open>arguments\<close> object of a call with the argument list \<open>xs\<close> (array-like, but not an
    instance of \<open>Array\<close>);
  \<^item> \<open>AopError e\<close>, the four constant \<open>Error\<close> objects that the namespace \<open>AOP\<close> creates
    once (lines 14 to 28), and \<open>TypeError\<close>, the error object the host raises for a member
    access on \<open>null\<close> or \<open>undefined\<close> and for a call of something that is not callable;
  \<^item> \<open>Fun f\<close>, a function: either a function of the caller (\<open>Native p\<close>, the \<open>p\<close>-th entry
    of a table of caller-supplied functions) or one of the four function expressions of
    the library, closed over the variables \<open>old\<close> and \<open>fun\<close> it captures.
\<close>

datatype aop_error = InvalidObject | InvalidMethod | InvalidAspect | InvalidProceed

datatype val =
    Undefined
  | Null
  | Bool bool
  | Num int
  | Str string
  | Obj nat
  | Arr "val list"
  | Arguments "val list"
  | AopError aop_error
  | TypeError
  | Fun fn
and fn =
    Native nat
  | BeforeFn val val
  | AfterFn val val
  | HandleFn val val
  | AroundFn val val

text \<open>The operator \<^verbatim>\<open>typeof\<close>: \<open>null\<close>, arrays, arguments objects and error objects
  all answer \<^verbatim>\<open>'object'\<close>.\<close>

fun typeof :: "val \<Rightarrow> string" where
  "typeof Undefined = ''undefined''"
| "typeof Null = ''object''"
| "typeof (Bool b) = ''boolean''"
| "typeof (Num n) = ''number''"
| "typeof (Str s) = ''string''"
| "typeof (Obj a) = ''object''"
| "typeof (Arr xs) = ''object''"
| "typeof (Arguments xs) = ''object''"
| "typeof (AopError e) = ''object''"
| "typeof TypeError = ''object''"
| "typeof (Fun f) = ''function''"

text \<open>\<^verbatim>\<open>tmp instanceof Array\<close>.\<close>

fun instanceof_Array :: "val \<Rightarrow> bool" where
  "instanceof_Array (Arr xs) = True"
| "instanceof_Array v = False"

text \<open>The list of arguments that \<^verbatim>\<open>f.apply(this, arglist)\<close> reads from its second
  argument. The library only ever passes \<^verbatim>\<open>arguments\<close> or an instance of \<open>Array\<close>.\<close>

fun elements :: "val \<Rightarrow> val list" where
  "elements (Arr xs) = xs"
| "elements (Arguments xs) = xs"
| "elements v = []"

section \<open>Members of objects\<close>

text \<open>
  The heap gives, for a value \<open>v\<close> and a member name \<open>k\<close>, the value that the member access
  \<^verbatim>\<open>v[k]\<close> resolves to (an own or an inherited member); a member that does not exist
  reads as \<open>Undefined\<close>, which is all that \<^verbatim>\<open>obj[method] === undefined\<close> can tell.
  The assignment \<^verbatim>\<open>obj[method] = w\<close> makes \<^verbatim>\<open>obj[method]\<close> resolve to \<open>w\<close> (objects are
  ordinary: extensible, with writable data members and no accessors). A member access
  on \<open>null\<close> or \<open>undefined\<close> raises the host's \<open>TypeError\<close>. A raised value is \<open>Inl\<close>.
  An array and an arguments object are told apart by their elements only, the error
  objects by their names; the host's and the caller's functions carry no members of
  their own (\<^verbatim>\<open>f.apply\<close> is the host's \<open>apply\<close> for every function \<open>f\<close>).
\<close>

type_synonym heap = "val \<Rightarrow> string \<Rightarrow> val"

definition get :: "heap \<Rightarrow> val \<Rightarrow> string \<Rightarrow> val + val" where
  "get h obj k = (if obj = Null \<or> obj = Undefined then Inl TypeError else Inr (h obj k))"

definition put :: "heap \<Rightarrow> val \<Rightarrow> string \<Rightarrow> val \<Rightarrow> val + heap" where
  "put h obj k w =
     (if obj = Null \<or> obj = Undefined then Inl TypeError else Inr (h(obj := (h obj)(k := w))))"

section \<open>Validation\<close>

text \<open>
  The name of the method is a \<open>String\<close> (as the documentation of the four operations has
  it) or is absent, that is \<open>undefined\<close>: \<open>None\<close>. The test \<^verbatim>\<open>!method\<close> succeeds on the
  absent and on the empty name. As a member name, \<open>undefined\<close> reads \<^verbatim>\<open>'undefined'\<close>.
\<close>

type_synonym mname = "string option"

fun falsy :: "mname \<Rightarrow> bool" where
  "falsy None = True"
| "falsy (Some s) = (s = [])"

fun key :: "mname \<Rightarrow> string" where
  "key None = ''undefined''"
| "key (Some s) = s"

text \<open>
  \<^verbatim>\<open>
  function check(obj, method, fun) {
      if (typeof obj !== 'object')              throw AOP.InvalidObject;
      if (typeof fun !== 'function')            throw AOP.InvalidAspect;
      if (!method || obj[method] === undefined) throw AOP.InvalidMethod;
  }
  \<close>
  The operator \<^verbatim>\<open>||\<close> evaluates \<^verbatim>\<open>obj[method]\<close> only when \<^verbatim>\<open>!method\<close> is false.
\<close>

definition check :: "heap \<Rightarrow> val \<Rightarrow> mname \<Rightarrow> val \<Rightarrow> val + unit" where
  "check h obj method fun =
     (if typeof obj \<noteq> ''object'' then Inl (AopError InvalidObject)
      else if typeof fun \<noteq> ''function'' then Inl (AopError InvalidAspect)
      else if falsy method then Inl (AopError InvalidMethod)
      else (case get h obj (key method) of
              Inl e \<Rightarrow> Inl e
            | Inr v \<Rightarrow> if v = Undefined then Inl (AopError InvalidMethod) else Inr ()))"

section \<open>The four wrapping operations\<close>

text \<open>A call either returns a value or raises one.\<close>

datatype outcome = Return val | Throw val

text \<open>
  Each operation validates, reads \<^verbatim>\<open>var old = obj[method]\<close>, assigns its function
  expression (closed over \<open>old\<close> and \<open>fun\<close>) to \<^verbatim>\<open>obj[method]\<close> and returns \<open>old\<close>:
  \<^verbatim>\<open>
  this.before = function (obj, method, fun) {
      check(obj, method, fun);
      var old = obj[method];
      obj[method] = function () { ... };
      return old;
  };
  \<close>
  The result is the outcome and the heap after the call.
\<close>

definition before :: "heap \<Rightarrow> val \<Rightarrow> mname \<Rightarrow> val \<Rightarrow> outcome \<times> heap" where
  "before h obj method fun =
     (case check h obj method fun of
        Inl e \<Rightarrow> (Throw e, h)
      | Inr u \<Rightarrow>
          (case get h obj (key method) of
             Inl e \<Rightarrow> (Throw e, h)
           | Inr old \<Rightarrow>
               (case put h obj (key method) (Fun (BeforeFn old fun)) of
                  Inl e \<Rightarrow> (Throw e, h)
                | Inr h' \<Rightarrow> (Return old, h'))))"

definition after :: "heap \<Rightarrow> val \<Rightarrow> mname \<Rightarrow> val \<Rightarrow> outcome \<times> heap" where
  "after h obj method fun =
     (case check h obj method fun of
        Inl e \<Rightarrow> (Throw e, h)
      | Inr u \<Rightarrow>
          (case get h obj (key method) of
             Inl e \<Rightarrow> (Throw e, h)
           | Inr old \<Rightarrow>
               (case put h obj (key method) (Fun (AfterFn old fun)) of
                  Inl e \<Rightarrow> (Throw e, h)
                | Inr h' \<Rightarrow> (Return old, h'))))"

definition handle :: "heap \<Rightarrow> val \<Rightarrow> mname \<Rightarrow> val \<Rightarrow> outcome \<times> heap" where
  "handle h obj method fun =
     (case check h obj method fun of
        Inl e \<Rightarrow> (Throw e, h)
      | Inr u \<Rightarrow>
          (case get h obj (key method) of
             Inl e \<Rightarrow> (Throw e, h)
           | Inr old \<Rightarrow>
               (case put h obj (key method) (Fun (HandleFn old fun)) of
                  Inl e \<Rightarrow> (Throw e, h)
                | Inr h' \<Rightarrow> (Return old, h'))))"

definition around :: "heap \<Rightarrow> val \<Rightarrow> mname \<Rightarrow> val \<Rightarrow> outcome \<times> heap" where
  "around h obj method fun =
     (case check h obj method fun of
        Inl e \<Rightarrow> (Throw e, h)
      | Inr u \<Rightarrow>
          (case get h obj (key method) of
             Inl e \<Rightarrow> (Throw e, h)
           | Inr old \<Rightarrow>
               (case put h obj (key method) (Fun (AroundFn old fun)) of
                  Inl e \<Rightarrow> (Throw e, h)
                | Inr h' \<Rightarrow> (Return old, h'))))"

text \<open>The text the four operations share, with the function expression as a parameter
  (a device of the proofs below).\<close>

definition install :: "(val \<Rightarrow> val \<Rightarrow> fn) \<Rightarrow> heap \<Rightarrow> val \<Rightarrow> mname \<Rightarrow> val \<Rightarrow> outcome \<times> heap" where
  "install closure h obj method fun =
     (case check h obj method fun of
        Inl e \<Rightarrow> (Throw e, h)
      | Inr u \<Rightarrow>
          (case get h obj (key method) of
             Inl e \<Rightarrow> (Throw e, h)
           | Inr old \<Rightarrow>
               (case put h obj (key method) (Fun (closure old fun)) of
                  Inl e \<Rightarrow> (Throw e, h)
                | Inr h' \<Rightarrow> (Return old, h'))))"

section \<open>Calling functions\<close>

text \<open>
  A call may run for ever (an advice can call the method it advises), so the
  interpreter counts the depth of nested calls: \<open>None\<close> is a call that did not return
  within the depth it was given. A function of the caller is any function of the
  receiver, the argument list and the heap that may itself call any value it gets hold
  of: it receives the interpreter (one level less deep) as its first argument.
\<close>

type_synonym result = "(outcome \<times> heap) option"

type_synonym callback = "val \<Rightarrow> val \<Rightarrow> val list \<Rightarrow> heap \<Rightarrow> result"

type_synonym native = "callback \<Rightarrow> val \<Rightarrow> val list \<Rightarrow> heap \<Rightarrow> result"

text \<open>
  \<^verbatim>\<open>f.apply(this, arglist)\<close>. For a function, \<open>apply\<close> is the host's: it calls \<open>f\<close> with the
  receiver \<open>this\<close> and the elements of \<open>arglist\<close>. For any other value (the captured
  \<open>old\<close> need not be a function), \<open>apply\<close> is a member like any other: reading it from
  \<open>null\<close> raises, and what it resolves to is called as a method of \<open>f\<close> with the two
  arguments \<open>this\<close> and \<open>arglist\<close>.
\<close>

definition apply_method :: "callback \<Rightarrow> val \<Rightarrow> val \<Rightarrow> val \<Rightarrow> heap \<Rightarrow> result" where
  "apply_method cb f this arglist h =
     (case f of
        Fun g \<Rightarrow> cb f this (elements arglist) h
      | _ \<Rightarrow> (case get h f ''apply'' of
                Inl e \<Rightarrow> Some (Throw e, h)
              | Inr m \<Rightarrow> cb m f [this, arglist] h))"

text \<open>
  The bodies of the four function expressions, called with the receiver \<open>this\<close> and the
  argument list \<open>args\<close> (so that \<^verbatim>\<open>arguments\<close> is \<open>Arguments args\<close>):
  \<^verbatim>\<open>
  before:  var tmp = fun.apply(this, arguments);
           if (tmp === undefined)         return old.apply(this, arguments);
           else if (tmp instanceof Array) return old.apply(this, tmp);
           else                           return old.apply(this, [tmp]);
  after:   var tmp = old.apply(this, arguments);
           return fun.apply(this, [tmp]);
  handle:  try { old.apply(this, arguments); }
           catch (e) { fun.apply(this, new Array(e, arguments)); }
  around:  return fun.apply(this, Array(old, arguments));
  \<close>
\<close>

fun call_fn :: "(nat \<Rightarrow> native) \<Rightarrow> callback \<Rightarrow> fn \<Rightarrow> val \<Rightarrow> val list \<Rightarrow> heap \<Rightarrow> result" where
  "call_fn env cb (Native p) this args h = env p cb this args h"
| "call_fn env cb (BeforeFn old fun) this args h =
     (case apply_method cb fun this (Arguments args) h of
        None \<Rightarrow> None
      | Some (Throw e, h1) \<Rightarrow> Some (Throw e, h1)
      | Some (Return tmp, h1) \<Rightarrow>
          if tmp = Undefined then apply_method cb old this (Arguments args) h1
          else if instanceof_Array tmp then apply_method cb old this tmp h1
          else apply_method cb old this (Arr [tmp]) h1)"
| "call_fn env cb (AfterFn old fun) this args h =
     (case apply_method cb old this (Arguments args) h of
        None \<Rightarrow> None
      | Some (Throw e, h1) \<Rightarrow> Some (Throw e, h1)
      | Some (Return tmp, h1) \<Rightarrow> apply_method cb fun this (Arr [tmp]) h1)"
| "call_fn env cb (HandleFn old fun) this args h =
     (case apply_method cb old this (Arguments args) h of
        None \<Rightarrow> None
      | Some (Return v, h1) \<Rightarrow> Some (Return Undefined, h1)
      | Some (Throw e, h1) \<Rightarrow>
          (case apply_method cb fun this (Arr [e, Arguments args]) h1 of
             None \<Rightarrow> None
           | Some (Return v, h2) \<Rightarrow> Some (Return Undefined, h2)
           | Some (Throw e', h2) \<Rightarrow> Some (Throw e', h2)))"
| "call_fn env cb (AroundFn old fun) this args h =
     apply_method cb fun this (Arr [old, Arguments args]) h"

text \<open>Calling a value with at most \<open>n\<close> nested calls; a value that is not a function
  cannot be called.\<close>

primrec run :: "nat \<Rightarrow> (nat \<Rightarrow> native) \<Rightarrow> callback" where
  "run 0 env = (\<lambda>f this args h. None)"
| "run (Suc n) env =
     (\<lambda>f this args h.
        case f of
          Fun g \<Rightarrow> call_fn env (run n env) g this args h
        | _ \<Rightarrow> Some (Throw TypeError, h))"

text \<open>The method call \<^verbatim>\<open>obj[k](args...)\<close>: the member is read, then called with \<open>obj\<close> as
  the receiver.\<close>

definition invoke :: "callback \<Rightarrow> val \<Rightarrow> string \<Rightarrow> val list \<Rightarrow> heap \<Rightarrow> result" where
  "invoke cb obj k args h =
     (case get h obj k of
        Inl e \<Rightarrow> Some (Throw e, h)
      | Inr f \<Rightarrow> cb f obj args h)"

section \<open>What the specification says of the wrappers\<close>

text \<open>
  The argument list that \<open>before\<close> hands to the original, in the words of the
  specification: the unmodified list when the advice returns no value, the sequence the
  advice returns, or else the returned value as the sole argument.
\<close>

fun spec_before_arguments :: "val \<Rightarrow> val list \<Rightarrow> val list" where
  "spec_before_arguments Undefined args = args"
| "spec_before_arguments (Arr xs) args = xs"
| "spec_before_arguments v args = [v]"

text \<open>Whether a call raised the constant \<^verbatim>\<open>AOP.InvalidProceed\<close>.\<close>

fun raises_proceed :: "result \<Rightarrow> bool" where
  "raises_proceed (Some (Throw e, h)) = (e = AopError InvalidProceed)"
| "raises_proceed r = False"

section \<open>A caller\<close>

text \<open>
  Functions of a caller, to run the wrappers on: the example of the specification
  (\<^verbatim>\<open>greet\<close> and an advice that upper-cases the name) and functions that leave a trace
  in the heap, in the members \<^verbatim>\<open>journal\<close> and \<^verbatim>\<open>seen\<close> of the object \<open>Obj 2\<close>.
\<close>

definition to_upper :: "string \<Rightarrow> string" where
  "to_upper s =
     map (\<lambda>c. case map_of (zip ''abcdefghijklmnopqrstuvwxyz'' ''ABCDEFGHIJKLMNOPQRSTUVWXYZ'') c of
                 None \<Rightarrow> c | Some u \<Rightarrow> u) s"

text \<open>\<^verbatim>\<open>function (name) { return "Hello, " + name; }\<close>\<close>

definition greet :: native where
  "greet cb this args h =
     (case args of
        Str name # rest \<Rightarrow> Some (Return (Str (''Hello, '' @ name)), h)
      | _ \<Rightarrow> Some (Return (Str ''Hello, undefined''), h))"

text \<open>\<^verbatim>\<open>function (name) { return name.toUpperCase(); }\<close>\<close>

definition shout :: native where
  "shout cb this args h =
     (case args of
        Str name # rest \<Rightarrow> Some (Return (Str (to_upper name)), h)
      | _ \<Rightarrow> Some (Throw TypeError, h))"

text \<open>\<^verbatim>\<open>function () { journal.push(i); return v; }\<close>\<close>

definition log_call :: "int \<Rightarrow> val \<Rightarrow> native" where
  "log_call i v cb this args h =
     Some (Return v,
           h(Obj 2 := (h (Obj 2))(''journal'' := Arr (elements (h (Obj 2) ''journal'') @ [Num i]))))"

text \<open>\<^verbatim>\<open>function () { throw "boom"; }\<close>\<close>

definition fail :: native where
  "fail cb this args h = Some (Throw (Str ''boom''), h)"

text \<open>\<^verbatim>\<open>function () { seen = Array.prototype.slice.call(arguments); return 1; }\<close>\<close>

definition rescue :: native where
  "rescue cb this args h = Some (Return (Num 1), h(Obj 2 := (h (Obj 2))(''seen'' := Arr args)))"

text \<open>\<^verbatim>\<open>function (orig, args) { var a = orig.apply(this, args);
                           var b = orig.apply(this, args); return [a, b]; }\<close>\<close>

definition twice :: native where
  "twice cb this args h =
     (case args of
        [orig, al] \<Rightarrow>
          (case cb orig this (elements al) h of
             None \<Rightarrow> None
           | Some (Throw e, h1) \<Rightarrow> Some (Throw e, h1)
           | Some (Return a, h1) \<Rightarrow>
               (case cb orig this (elements al) h1 of
                  None \<Rightarrow> None
                | Some (Throw e, h2) \<Rightarrow> Some (Throw e, h2)
                | Some (Return b, h2) \<Rightarrow> Some (Return (Arr [a, b]), h2)))
      | _ \<Rightarrow> Some (Throw TypeError, h))"

text \<open>\<^verbatim>\<open>function (s) { return s + "!"; }\<close>\<close>

definition exclaim :: native where
  "exclaim cb this args h =
     (case args of
        Str s # rest \<Rightarrow> Some (Return (Str (s @ ''!'')), h)
      | _ \<Rightarrow> Some (Return (Str ''undefined!''), h))"

definition caller :: "nat \<Rightarrow> native" where
  "caller p =
     (if p = 0 then greet
      else if p = 1 then shout
      else if p = 2 then log_call 1 Undefined
      else if p = 3 then log_call 2 Undefined
      else if p = 4 then log_call 0 (Num 7)
      else if p = 5 then fail
      else if p = 6 then rescue
      else if p = 7 then twice
      else exclaim)"

text \<open>The target \<open>Obj 0\<close> has the methods \<^verbatim>\<open>greet\<close>, \<^verbatim>\<open>work\<close> and \<^verbatim>\<open>fail\<close> and the
  member \<^verbatim>\<open>size\<close>, a number; no other member is defined.\<close>

definition target_heap :: heap where
  "target_heap =
     (\<lambda>v k. Undefined)
       (Obj 0 := (\<lambda>k. Undefined)
          (''greet'' := Fun (Native 0), ''work'' := Fun (Native 4),
           ''fail'' := Fun (Native 5), ''size'' := Num 42))"

text \<open>The heap after \<^verbatim>\<open>AOP.before(target, "work", advice1)\<close> and then
  \<^verbatim>\<open>AOP.before(target, "work", advice2)\<close>, where \<open>advice1\<close> (\<open>Native 2\<close>) writes 1 in the
  journal, \<open>advice2\<close> (\<open>Native 3\<close>) writes 2 and \<^verbatim>\<open>work\<close> itself writes 0.\<close>

definition chained_heap :: heap where
  "chained_heap =
     snd (before (snd (before target_heap (Obj 0) (Some ''work'') (Fun (Native 2))))
            (Obj 0) (Some ''work'') (Fun (Native 3)))"



text \<open>What a run left in a member of \<open>Obj 2\<close>, and what it returned or raised.\<close>

fun left :: "string \<Rightarrow> result \<Rightarrow> val" where
  "left k None = Undefined"
| "left k (Some (out, h)) = h (Obj 2) k"

fun ended :: "result \<Rightarrow> outcome option" where
  "ended None = None"
| "ended (Some (out, h)) = Some out"

section \<open>Facts about validation and installation\<close>

lemma typeof_object_cases:
  "typeof v = ''object'' \<longleftrightarrow>
     v = Null \<or> (\<exists>a. v = Obj a) \<or> (\<exists>xs. v = Arr xs) \<or> (\<exists>xs. v = Arguments xs)
     \<or> (\<exists>e. v = AopError e) \<or> v = TypeError"
  by (cases v) simp_all

lemma typeof_function_cases: "typeof v = ''function'' \<longleftrightarrow> (\<exists>f. v = Fun f)"
  by (cases v) simp_all

lemma check_passes:
  "check h obj method fun = Inr u \<longleftrightarrow>
     typeof obj = ''object'' \<and> obj \<noteq> Null \<and> typeof fun = ''function'' \<and> \<not> falsy method
     \<and> h obj (key method) \<noteq> Undefined"
  by (cases obj) (auto simp: check_def get_def)

lemma install_Return:
  "install c h obj method fun = (Return old, h') \<longleftrightarrow>
     typeof obj = ''object'' \<and> obj \<noteq> Null \<and> typeof fun = ''function'' \<and> \<not> falsy method
     \<and> h obj (key method) \<noteq> Undefined \<and> old = h obj (key method)
     \<and> h' = h(obj := (h obj)(key method := Fun (c old fun)))"
proof (cases "check h obj method fun")
  case (Inl e)
  then have "install c h obj method fun = (Throw e, h)"
    by (simp add: install_def)
  moreover from Inl have "\<not> (typeof obj = ''object'' \<and> obj \<noteq> Null \<and> typeof fun = ''function''
     \<and> \<not> falsy method \<and> h obj (key method) \<noteq> Undefined)"
    using check_passes [of h obj "method" "fun" "()"] by simp
  ultimately show ?thesis by auto
next
  case (Inr u)
  then have ok: "typeof obj = ''object''" "obj \<noteq> Null" "typeof fun = ''function''"
    "\<not> falsy method" "h obj (key method) \<noteq> Undefined"
    using check_passes [of h obj "method" "fun" u] by simp_all
  from ok(1,2) have "obj \<noteq> Undefined" by auto
  with Inr ok(2) have "install c h obj method fun =
      (Return (h obj (key method)),
       h(obj := (h obj)(key method := Fun (c (h obj (key method)) fun))))"
    by (simp add: install_def get_def put_def)
  with ok show ?thesis by auto
qed

lemma install_Throw: "install c h obj method fun = (Throw e, h') \<Longrightarrow> h' = h"
  by (auto simp: install_def split: sum.splits)

lemma before_install: "before = install BeforeFn"
  by (intro ext) (simp add: before_def install_def)

lemma after_install: "after = install AfterFn"
  by (intro ext) (simp add: after_def install_def)

lemma handle_install: "handle = install HandleFn"
  by (intro ext) (simp add: handle_def install_def)

lemma around_install: "around = install AroundFn"
  by (intro ext) (simp add: around_def install_def)

lemmas wrap_install = before_install after_install handle_install around_install

lemma wrap_cases:
  assumes "op \<in> {before, after, handle, around}"
  obtains c where "op = install c"
  using assms wrap_install by auto

lemma installed:
  assumes "install c h obj method fun = (Return old, h')"
  shows "h' obj (key method) = Fun (c old fun)" and "typeof fun = ''function''"
  using assms install_Return [of c h obj "method" "fun" old h'] by simp_all

lemma install_valid:
  assumes "check h obj method fun = Inr ()"
  shows "install c h obj method fun =
           (Return (h obj (key method)),
            h(obj := (h obj)(key method := Fun (c (h obj (key method)) fun))))"
  using assms check_passes [of h obj "method" "fun" "()"]
    install_Return [of c h obj "method" "fun" "h obj (key method)"]
  by simp

lemma install_null:
  "typeof fun = ''function'' \<Longrightarrow>
   install c h Null method fun =
     (if falsy method then (Throw (AopError InvalidMethod), h) else (Throw TypeError, h))"
  by (simp add: install_def check_def get_def)


text \<open>The order of the three tests, for a target that is not \<open>null\<close>; a failed
  validation leaves the heap as it was.\<close>

lemma validation_order:
  assumes "op \<in> {before, after, handle, around}"
  shows "typeof obj \<noteq> ''object'' \<Longrightarrow> op h obj method fun = (Throw (AopError InvalidObject), h)"
    and "typeof obj = ''object'' \<Longrightarrow> typeof fun \<noteq> ''function'' \<Longrightarrow>
           op h obj method fun = (Throw (AopError InvalidAspect), h)"
    and "typeof obj = ''object'' \<Longrightarrow> typeof fun = ''function'' \<Longrightarrow> falsy method \<Longrightarrow>
           op h obj method fun = (Throw (AopError InvalidMethod), h)"
    and "typeof obj = ''object'' \<Longrightarrow> typeof fun = ''function'' \<Longrightarrow> obj \<noteq> Null \<Longrightarrow>
           h obj (key method) = Undefined \<Longrightarrow>
           op h obj method fun = (Throw (AopError InvalidMethod), h)"
proof -
  from assms obtain c where op: "op = install c" by (rule wrap_cases)
  show "typeof obj \<noteq> ''object'' \<Longrightarrow> op h obj method fun = (Throw (AopError InvalidObject), h)"
    by (simp add: op install_def check_def)
  show "typeof obj = ''object'' \<Longrightarrow> typeof fun \<noteq> ''function'' \<Longrightarrow>
           op h obj method fun = (Throw (AopError InvalidAspect), h)"
    by (simp add: op install_def check_def)
  show "typeof obj = ''object'' \<Longrightarrow> typeof fun = ''function'' \<Longrightarrow> falsy method \<Longrightarrow>
           op h obj method fun = (Throw (AopError InvalidMethod), h)"
    by (simp add: op install_def check_def)
  show "typeof obj = ''object'' \<Longrightarrow> typeof fun = ''function'' \<Longrightarrow> obj \<noteq> Null \<Longrightarrow>
           h obj (key method) = Undefined \<Longrightarrow>
           op h obj method fun = (Throw (AopError InvalidMethod), h)"
    by (cases obj) (simp_all add: op install_def check_def get_def)
qed

section \<open>Facts about calls\<close>

lemma run_Fun: "run (Suc n) env (Fun g) this args h = call_fn env (run n env) g this args h"
  by simp

lemma apply_method_function:
  "typeof f = ''function'' \<Longrightarrow> apply_method cb f this arglist h = cb f this (elements arglist) h"
  by (cases f) (simp_all add: apply_method_def)

text \<open>A value that is not a function, and whose member \<^verbatim>\<open>apply\<close> is not one either, has
  no \<open>apply\<close> to call: \<^verbatim>\<open>old.apply(this, arguments)\<close> raises the host's \<open>TypeError\<close>.\<close>

lemma apply_method_not_callable:
  assumes "typeof f \<noteq> ''function''" and "typeof (h f ''apply'') \<noteq> ''function''"
  shows "apply_method (run (Suc n) env) f this arglist h = Some (Throw TypeError, h)"
proof (cases "f = Null \<or> f = Undefined")
  case True
  then show ?thesis by (auto simp: apply_method_def get_def)
next
  case False
  with assms(1) have "apply_method (run (Suc n) env) f this arglist h =
      run (Suc n) env (h f ''apply'') f [this, arglist] h"
    by (cases f) (simp_all add: apply_method_def get_def)
  also from assms(2) have "\<dots> = Some (Throw TypeError, h)"
    by (cases "h f ''apply''") simp_all
  finally show ?thesis .
qed

lemma spec_before_arguments_elements:
  "spec_before_arguments v args =
     elements (if v = Undefined then Arguments args else if instanceof_Array v then v else Arr [v])"
  by (cases v) simp_all

lemma raises_proceed_iff:
  "raises_proceed r \<longleftrightarrow> (\<exists>h. r = Some (Throw (AopError InvalidProceed), h))"
  by (cases r rule: raises_proceed.cases) auto

lemma apply_method_no_proceed:
  assumes "\<And>f t a h0. \<not> raises_proceed (cb f t a h0)"
  shows "\<not> raises_proceed (apply_method cb f this arglist h)"
  using assms by (cases f) (auto simp: apply_method_def get_def)

lemma call_fn_no_proceed:
  assumes natives: "\<And>p cb this args h.
      (\<And>f t a h0. \<not> raises_proceed (cb f t a h0)) \<Longrightarrow> \<not> raises_proceed (env p cb this args h)"
    and cb: "\<And>f t a h0. \<not> raises_proceed (cb f t a h0)"
  shows "\<not> raises_proceed (call_fn env cb g this args h)"
proof (cases g)
  case (Native p)
  then show ?thesis using natives [OF cb] by simp
next
  case (BeforeFn old f)
  then show ?thesis
    using apply_method_no_proceed [of cb, OF cb]
    by (auto simp: raises_proceed_iff split: option.splits outcome.splits prod.splits if_splits)
next
  case (AfterFn old f)
  then show ?thesis
    using apply_method_no_proceed [of cb, OF cb]
    by (auto simp: raises_proceed_iff split: option.splits outcome.splits prod.splits if_splits)
next
  case (HandleFn old f)
  then show ?thesis
    using apply_method_no_proceed [of cb, OF cb]
    by (auto simp: raises_proceed_iff split: option.splits outcome.splits prod.splits if_splits)
next
  case (AroundFn old f)
  then show ?thesis
    using apply_method_no_proceed [of cb, OF cb] by simp
qed

lemma run_no_proceed:
  assumes natives: "\<And>p cb this args h.
      (\<And>f t a h0. \<not> raises_proceed (cb f t a h0)) \<Longrightarrow> \<not> raises_proceed (env p cb this args h)"
  shows "\<not> raises_proceed (run n env f this args h)"
proof (induction n arbitrary: f this args h)
  case 0
  show ?case by simp
next
  case (Suc n)
  show ?case
  proof (cases f)
    case (Fun g)
    then show ?thesis
      using call_fn_no_proceed [of env "run n env" g this args h, OF natives Suc.IH] by simp
  qed simp_all
qed



lemma before_closure:
  assumes "typeof fun = ''function''" and "typeof old = ''function''"
  shows "run (Suc n) env (Fun (BeforeFn old fun)) r A h =
           (case run n env fun r A h of
              None \<Rightarrow> None
            | Some (Throw e, h1) \<Rightarrow> Some (Throw e, h1)
            | Some (Return v, h1) \<Rightarrow> run n env old r (spec_before_arguments v A) h1)"
  unfolding run_Fun call_fn.simps apply_method_function [OF assms(1)]
    apply_method_function [OF assms(2)]
  by (auto simp: spec_before_arguments_elements split: option.splits outcome.splits prod.splits)

section \<open>Facts about the caller\<close>

lemmas caller_defs = caller_def greet_def shout_def to_upper_def log_call_def fail_def
  rescue_def twice_def exclaim_def

lemmas wrap_defs = before_def after_def handle_def around_def check_def get_def put_def
  target_heap_def

section \<open>The wrappers\<close>

text \<open>
  Claim C1. After a successful \<^verbatim>\<open>before(target, methodName, advice)\<close> on a member that
  is a function, every invocation of the installed method with the receiver \<open>r\<close> and the
  argument list \<open>A\<close>, in any later heap, first calls the advice with \<open>r\<close> and \<open>A\<close>; when
  the advice returns \<open>v\<close>, the original is then called with the receiver \<open>r\<close> and with
  \<open>A\<close> if \<open>v\<close> is \<open>undefined\<close>, with the elements of \<open>v\<close> if \<open>v\<close> is an \<open>Array\<close>, and with
  \<open>v\<close> alone otherwise, and the outcome of the method is the outcome of that call of the
  original. (A raise of the advice ends the method; the original is not called.)
\<close>

theorem before_wrapper:
  assumes "before h obj method fun = (Return old, h')" and "typeof old = ''function''"
  shows "run (Suc n) env (h' obj (key method)) r A h2 =
           (case run n env fun r A h2 of
              None \<Rightarrow> None
            | Some (Throw e, h3) \<Rightarrow> Some (Throw e, h3)
            | Some (Return v, h3) \<Rightarrow> run n env old r (spec_before_arguments v A) h3)"
proof -
  from assms(1) have w: "h' obj (key method) = Fun (BeforeFn old fun)"
    and f: "typeof fun = ''function''"
    using installed [of BeforeFn h obj "method" "fun" old h'] by (simp_all add: before_install)
  show ?thesis
    unfolding w by (rule before_closure [OF f assms(2)])
qed

text \<open>The example of the specification: \<^verbatim>\<open>greet\<close> advised by an upper-casing function,
  called as \<^verbatim>\<open>target.greet("ann")\<close>, returns \<^verbatim>\<open>"Hello, ANN"\<close>.\<close>

theorem before_wrapper_witness:
  "before target_heap (Obj 0) (Some ''greet'') (Fun (Native 1))
     = (Return (Fun (Native 0)), snd (before target_heap (Obj 0) (Some ''greet'') (Fun (Native 1))))
   \<and> typeof (Fun (Native 0)) = ''function''
   \<and> ended (run (Suc (Suc 0)) caller
        (snd (before target_heap (Obj 0) (Some ''greet'') (Fun (Native 1))) (Obj 0) ''greet'')
        (Obj 0) [Str ''ann'']
        (snd (before target_heap (Obj 0) (Some ''greet'') (Fun (Native 1)))))
       = Some (Return (Str ''Hello, ANN''))
   \<and> ended (invoke (run (Suc (Suc 0)) caller) (Obj 0) ''greet'' [Str ''ann'']
        (snd (before target_heap (Obj 0) (Some ''greet'') (Fun (Native 1)))))
       = Some (Return (Str ''Hello, ANN''))"
proof -
  let ?h = "snd (before target_heap (Obj 0) (Some ''greet'') (Fun (Native 1)))"
  have a: "before target_heap (Obj 0) (Some ''greet'') (Fun (Native 1)) = (Return (Fun (Native 0)), ?h)"
    by (simp add: wrap_defs)
  have b: "typeof (Fun (Native 0)) = ''function''" by simp
  have "run (Suc (Suc 0)) caller (?h (Obj 0) (key (Some ''greet''))) (Obj 0) [Str ''ann''] ?h =
          Some (Return (Str ''Hello, ANN''), ?h)"
    unfolding before_wrapper [OF a b] by (simp add: caller_defs)
  then show ?thesis using a b by (simp add: invoke_def get_def)
qed

text \<open>
  Claim C2. After a successful \<^verbatim>\<open>handle(target, methodName, advice)\<close> on a member that
  is a function, an invocation of the installed method with the receiver \<open>r\<close> and the
  argument list \<open>A\<close> calls the original with \<open>r\<close> and \<open>A\<close>. If the original raises \<open>E\<close>,
  the advice is called with the two arguments \<open>E\<close> and the \<^verbatim>\<open>arguments\<close> object of the
  invocation, and \<open>E\<close> goes no further: the method returns \<open>undefined\<close> when the advice
  returns (only a raise of the advice itself leaves the method). If the original
  returns, the method returns \<open>undefined\<close> in the heap the original left: the advice is
  not called and the value the original returned is dropped.
\<close>

theorem handle_wrapper:
  assumes "handle h obj method fun = (Return old, h')" and "typeof old = ''function''"
  shows "run (Suc n) env (h' obj (key method)) r A h2 =
           (case run n env old r A h2 of
              None \<Rightarrow> None
            | Some (Return v, h3) \<Rightarrow> Some (Return Undefined, h3)
            | Some (Throw e, h3) \<Rightarrow>
                (case run n env fun r [e, Arguments A] h3 of
                   None \<Rightarrow> None
                 | Some (Return v, h4) \<Rightarrow> Some (Return Undefined, h4)
                 | Some (Throw e', h4) \<Rightarrow> Some (Throw e', h4)))"
proof -
  from assms(1) have w: "h' obj (key method) = Fun (HandleFn old fun)"
    and f: "typeof fun = ''function''"
    using installed [of HandleFn h obj "method" "fun" old h'] by (simp_all add: handle_install)
  show ?thesis
    unfolding w run_Fun call_fn.simps apply_method_function [OF f]
      apply_method_function [OF assms(2)]
    by (simp split: option.splits outcome.splits prod.splits)
qed

text \<open>The method \<^verbatim>\<open>fail\<close> raises \<^verbatim>\<open>"boom"\<close>: the advice sees \<^verbatim>\<open>("boom", arguments)\<close> and
  the method returns \<open>undefined\<close>. The method \<^verbatim>\<open>work\<close> returns 7: the advice sees
  nothing and the method returns \<open>undefined\<close>.\<close>

theorem handle_wrapper_witness:
  "handle target_heap (Obj 0) (Some ''fail'') (Fun (Native 6))
     = (Return (Fun (Native 5)), snd (handle target_heap (Obj 0) (Some ''fail'') (Fun (Native 6))))
   \<and> typeof (Fun (Native 5)) = ''function''
   \<and> ended (run (Suc (Suc 0)) caller
        (snd (handle target_heap (Obj 0) (Some ''fail'') (Fun (Native 6))) (Obj 0) ''fail'')
        (Obj 0) [Num 5]
        (snd (handle target_heap (Obj 0) (Some ''fail'') (Fun (Native 6)))))
       = Some (Return Undefined)
   \<and> left ''seen'' (run (Suc (Suc 0)) caller
        (snd (handle target_heap (Obj 0) (Some ''fail'') (Fun (Native 6))) (Obj 0) ''fail'')
        (Obj 0) [Num 5]
        (snd (handle target_heap (Obj 0) (Some ''fail'') (Fun (Native 6)))))
       = Arr [Str ''boom'', Arguments [Num 5]]
   \<and> handle target_heap (Obj 0) (Some ''work'') (Fun (Native 6))
     = (Return (Fun (Native 4)), snd (handle target_heap (Obj 0) (Some ''work'') (Fun (Native 6))))
   \<and> typeof (Fun (Native 4)) = ''function''
   \<and> ended (run (Suc (Suc 0)) caller
        (snd (handle target_heap (Obj 0) (Some ''work'') (Fun (Native 6))) (Obj 0) ''work'')
        (Obj 0) [Num 5]
        (snd (handle target_heap (Obj 0) (Some ''work'') (Fun (Native 6)))))
       = Some (Return Undefined)
   \<and> left ''seen'' (run (Suc (Suc 0)) caller
        (snd (handle target_heap (Obj 0) (Some ''work'') (Fun (Native 6))) (Obj 0) ''work'')
        (Obj 0) [Num 5]
        (snd (handle target_heap (Obj 0) (Some ''work'') (Fun (Native 6)))))
       = Undefined"
proof -
  let ?h = "snd (handle target_heap (Obj 0) (Some ''fail'') (Fun (Native 6)))"
  let ?g = "snd (handle target_heap (Obj 0) (Some ''work'') (Fun (Native 6)))"
  have a: "handle target_heap (Obj 0) (Some ''fail'') (Fun (Native 6)) = (Return (Fun (Native 5)), ?h)"
    by (simp add: wrap_defs)
  have b: "typeof (Fun (Native 5)) = ''function''" by simp
  have c: "handle target_heap (Obj 0) (Some ''work'') (Fun (Native 6)) = (Return (Fun (Native 4)), ?g)"
    by (simp add: wrap_defs)
  have d: "typeof (Fun (Native 4)) = ''function''" by simp
  have s: "?g (Obj 2) ''seen'' = Undefined"
    by (simp add: wrap_defs)
  have "run (Suc (Suc 0)) caller (?h (Obj 0) (key (Some ''fail''))) (Obj 0) [Num 5] ?h =
          Some (Return Undefined,
                ?h(Obj 2 := (?h (Obj 2))(''seen'' := Arr [Str ''boom'', Arguments [Num 5]])))"
    unfolding handle_wrapper [OF a b] by (simp add: caller_defs)
  moreover
  have "run (Suc (Suc 0)) caller (?g (Obj 0) (key (Some ''work''))) (Obj 0) [Num 5] ?g =
          Some (Return Undefined,
                ?g(Obj 2 := (?g (Obj 2))(''journal'' := Arr (elements (?g (Obj 2) ''journal'') @ [Num 0]))))"
    unfolding handle_wrapper [OF c d] by (simp add: caller_defs)
  ultimately show ?thesis using a b c d s by simp
qed

text \<open>
  Claim C3. After a successful \<^verbatim>\<open>around(target, methodName, advice)\<close>, an invocation of
  the installed method with the receiver \<open>r\<close> and the argument list \<open>A\<close> is exactly the
  call of the advice with the receiver \<open>r\<close> and the two arguments \<open>old\<close> (the captured
  original) and the \<^verbatim>\<open>arguments\<close> object of the invocation: same outcome, same heap,
  whatever the advice does with the original.
\<close>

theorem around_wrapper:
  assumes "around h obj method fun = (Return old, h')"
  shows "run (Suc n) env (h' obj (key method)) r A h2 = run n env fun r [old, Arguments A] h2"
proof -
  from assms(1) have w: "h' obj (key method) = Fun (AroundFn old fun)"
    and f: "typeof fun = ''function''"
    using installed [of AroundFn h obj "method" "fun" old h'] by (simp_all add: around_install)
  show ?thesis
    unfolding w run_Fun call_fn.simps apply_method_function [OF f]
    by simp
qed

text \<open>An advice that calls the original twice: the method returns what the advice
  returns, \<^verbatim>\<open>[7, 7]\<close>, and \<^verbatim>\<open>work\<close> has written twice in the journal.\<close>

theorem around_wrapper_witness:
  "around target_heap (Obj 0) (Some ''work'') (Fun (Native 7))
     = (Return (Fun (Native 4)), snd (around target_heap (Obj 0) (Some ''work'') (Fun (Native 7))))
   \<and> ended (run (Suc (Suc (Suc 0))) caller
        (snd (around target_heap (Obj 0) (Some ''work'') (Fun (Native 7))) (Obj 0) ''work'')
        (Obj 0) []
        (snd (around target_heap (Obj 0) (Some ''work'') (Fun (Native 7)))))
       = Some (Return (Arr [Num 7, Num 7]))
   \<and> left ''journal'' (run (Suc (Suc (Suc 0))) caller
        (snd (around target_heap (Obj 0) (Some ''work'') (Fun (Native 7))) (Obj 0) ''work'')
        (Obj 0) []
        (snd (around target_heap (Obj 0) (Some ''work'') (Fun (Native 7)))))
       = Arr [Num 0, Num 0]"
proof -
  let ?h = "snd (around target_heap (Obj 0) (Some ''work'') (Fun (Native 7)))"
  have a: "around target_heap (Obj 0) (Some ''work'') (Fun (Native 7)) = (Return (Fun (Native 4)), ?h)"
    by (simp add: wrap_defs)
  have j: "?h (Obj 2) ''journal'' = Undefined"
    by (simp add: wrap_defs)
  have "run (Suc (Suc (Suc 0))) caller (?h (Obj 0) (key (Some ''work''))) (Obj 0) [] ?h =
          Some (Return (Arr [Num 7, Num 7]),
                ?h(Obj 2 := (?h (Obj 2))(''journal'' := Arr [Num 0, Num 0])))"
    unfolding around_wrapper [OF a] by (simp add: caller_defs j)
  then show ?thesis using a by simp
qed

text \<open>
  Claim C5. After a successful \<^verbatim>\<open>after(target, methodName, advice)\<close> on a member that is
  a function, an invocation of the installed method with the receiver \<open>r\<close> and the
  argument list \<open>A\<close> first calls the original with \<open>r\<close> and \<open>A\<close>; when it returns \<open>v\<close>, the
  advice is called with the receiver \<open>r\<close> and the single argument \<open>v\<close>, and the outcome
  of the method is the outcome of the advice.
\<close>

theorem after_wrapper:
  assumes "after h obj method fun = (Return old, h')" and "typeof old = ''function''"
  shows "run (Suc n) env (h' obj (key method)) r A h2 =
           (case run n env old r A h2 of
              None \<Rightarrow> None
            | Some (Throw e, h3) \<Rightarrow> Some (Throw e, h3)
            | Some (Return v, h3) \<Rightarrow> run n env fun r [v] h3)"
proof -
  from assms(1) have w: "h' obj (key method) = Fun (AfterFn old fun)"
    and f: "typeof fun = ''function''"
    using installed [of AfterFn h obj "method" "fun" old h'] by (simp_all add: after_install)
  show ?thesis
    unfolding w run_Fun call_fn.simps apply_method_function [OF f]
      apply_method_function [OF assms(2)]
    by (simp split: option.splits outcome.splits prod.splits)
qed

text \<open>\<^verbatim>\<open>greet\<close> with an advice that appends an exclamation mark to its result.\<close>

theorem after_wrapper_witness:
  "after target_heap (Obj 0) (Some ''greet'') (Fun (Native 8))
     = (Return (Fun (Native 0)), snd (after target_heap (Obj 0) (Some ''greet'') (Fun (Native 8))))
   \<and> typeof (Fun (Native 0)) = ''function''
   \<and> ended (run (Suc (Suc 0)) caller
        (snd (after target_heap (Obj 0) (Some ''greet'') (Fun (Native 8))) (Obj 0) ''greet'')
        (Obj 0) [Str ''ann'']
        (snd (after target_heap (Obj 0) (Some ''greet'') (Fun (Native 8)))))
       = Some (Return (Str ''Hello, ann!''))"
proof -
  let ?h = "snd (after target_heap (Obj 0) (Some ''greet'') (Fun (Native 8)))"
  have a: "after target_heap (Obj 0) (Some ''greet'') (Fun (Native 8)) = (Return (Fun (Native 0)), ?h)"
    by (simp add: wrap_defs)
  have b: "typeof (Fun (Native 0)) = ''function''" by simp
  have "run (Suc (Suc 0)) caller (?h (Obj 0) (key (Some ''greet''))) (Obj 0) [Str ''ann''] ?h =
          Some (Return (Str ''Hello, ann!''), ?h)"
    unfolding after_wrapper [OF a b] by (simp add: caller_defs)
  then show ?thesis using a b by simp
qed

section \<open>Validation and installation\<close>

text \<open>
  Claim C4. The claim: an invalid call of any of the four operations raises the error of
  the first failing test (a target that is not an object raises \<open>InvalidObject\<close>, also
  when the advice is invalid too), before any mutation. The target \<open>null\<close> is not an
  object, yet \<^verbatim>\<open>typeof null\<close> is \<^verbatim>\<open>'object'\<close>, so the first test lets it through: with an
  advice that is not callable the call raises \<open>InvalidAspect\<close>, and with a callable
  advice and a name the member access \<^verbatim>\<open>null[method]\<close> raises the host's \<open>TypeError\<close>.
  (For every other target the order is as claimed: \<open>validation_order\<close>.)
\<close>

theorem null_target_not_rejected:
  "typeof Null = ''object''
   \<and> before h Null (Some ''greet'') (Num 42) = (Throw (AopError InvalidAspect), h)
   \<and> before h Null (Some ''greet'') (Fun (Native 0)) = (Throw TypeError, h)
   \<and> after h Null (Some ''greet'') (Num 42) = (Throw (AopError InvalidAspect), h)
   \<and> after h Null (Some ''greet'') (Fun (Native 0)) = (Throw TypeError, h)
   \<and> handle h Null (Some ''greet'') (Num 42) = (Throw (AopError InvalidAspect), h)
   \<and> handle h Null (Some ''greet'') (Fun (Native 0)) = (Throw TypeError, h)
   \<and> around h Null (Some ''greet'') (Num 42) = (Throw (AopError InvalidAspect), h)
   \<and> around h Null (Some ''greet'') (Fun (Native 0)) = (Throw TypeError, h)"
  by (simp add: before_def after_def handle_def around_def check_def get_def)

text \<open>
  Claim C6. When the validation of \<open>(target, methodName, advice)\<close> succeeds, each of the
  four operations returns the value that \<^verbatim>\<open>target[methodName]\<close> held before the call
  and changes the heap in that one member only, which now holds the new function
  closed over that value and the advice. A captured function is never the target, so
  none of its own members is touched.
\<close>

theorem wrap_returns_previous_member:
  assumes "check h obj method fun = Inr ()"
  shows "before h obj method fun =
           (Return (h obj (key method)),
            h(obj := (h obj)(key method := Fun (BeforeFn (h obj (key method)) fun))))
       \<and> after h obj method fun =
           (Return (h obj (key method)),
            h(obj := (h obj)(key method := Fun (AfterFn (h obj (key method)) fun))))
       \<and> handle h obj method fun =
           (Return (h obj (key method)),
            h(obj := (h obj)(key method := Fun (HandleFn (h obj (key method)) fun))))
       \<and> around h obj method fun =
           (Return (h obj (key method)),
            h(obj := (h obj)(key method := Fun (AroundFn (h obj (key method)) fun))))
       \<and> (\<forall>op\<in>{before, after, handle, around}.
            typeof (h obj (key method)) = ''function'' \<longrightarrow>
            snd (op h obj method fun) (h obj (key method)) = h (h obj (key method)))"
proof -
  note i = install_valid [OF assms]
  from assms have "typeof obj = ''object''"
    using check_passes [of h obj "method" "fun" "()"] by simp
  then have "typeof (h obj (key method)) = ''function'' \<Longrightarrow> h obj (key method) \<noteq> obj"
    by auto
  then show ?thesis
    by (auto simp: wrap_install i)
qed

text \<open>Wrapping \<^verbatim>\<open>greet\<close> returns the function that was there.\<close>

theorem wrap_returns_previous_member_witness:
  "check target_heap (Obj 0) (Some ''greet'') (Fun (Native 1)) = Inr ()
   \<and> fst (before target_heap (Obj 0) (Some ''greet'') (Fun (Native 1))) = Return (Fun (Native 0))
   \<and> fst (around target_heap (Obj 0) (Some ''greet'') (Fun (Native 1))) = Return (Fun (Native 0))
   \<and> snd (before target_heap (Obj 0) (Some ''greet'') (Fun (Native 1))) (Obj 0) ''greet''
       = Fun (BeforeFn (Fun (Native 0)) (Fun (Native 1)))
   \<and> target_heap (Obj 0) ''greet'' = Fun (Native 0)"
proof -
  have a: "check target_heap (Obj 0) (Some ''greet'') (Fun (Native 1)) = Inr ()"
    by (simp add: check_def get_def target_heap_def)
  have g: "target_heap (Obj 0) ''greet'' = Fun (Native 0)"
    by (simp add: target_heap_def)
  from wrap_returns_previous_member [OF a] a g show ?thesis
    by simp
qed

text \<open>
  Claim C8, as the code has it. A wrap that completes without raising found
  \<^verbatim>\<open>target[methodName]\<close> defined (not \<open>undefined\<close>), under a name that is not empty, on a
  target that \<^verbatim>\<open>typeof\<close> calls an object and that is not \<open>null\<close>, with an advice that is a
  function; it returns that member. The member need not be callable.
\<close>

theorem wrap_success_member_defined:
  assumes "op \<in> {before, after, handle, around}"
    and "op h obj method fun = (Return old, h')"
  shows "old = h obj (key method) \<and> old \<noteq> Undefined \<and> \<not> falsy method
         \<and> typeof obj = ''object'' \<and> obj \<noteq> Null \<and> typeof fun = ''function''"
proof -
  from assms(1) obtain c where "op = install c" by (rule wrap_cases)
  with assms(2) show ?thesis
    using install_Return [of c h obj "method" "fun" old h'] by simp
qed

theorem wrap_success_member_defined_witness:
  "before \<in> {before, after, handle, around}
   \<and> before target_heap (Obj 0) (Some ''size'') (Fun (Native 1))
       = (Return (Num 42), snd (before target_heap (Obj 0) (Some ''size'') (Fun (Native 1))))
   \<and> Num 42 = target_heap (Obj 0) (key (Some ''size'')) \<and> Num 42 \<noteq> Undefined"
proof -
  have a: "before \<in> {before, after, handle, around}" by simp
  have b: "before target_heap (Obj 0) (Some ''size'') (Fun (Native 1))
       = (Return (Num 42), snd (before target_heap (Obj 0) (Some ''size'') (Fun (Native 1))))"
    by (simp add: wrap_defs)
  from wrap_success_member_defined [of before target_heap "Obj 0" "Some ''size''" "Fun (Native 1)"
      "Num 42" "snd (before target_heap (Obj 0) (Some ''size'') (Fun (Native 1)))", OF a b]
  have "Num 42 = target_heap (Obj 0) (key (Some ''size'')) \<and> Num 42 \<noteq> Undefined"
    by blast
  with a b show ?thesis by blast
qed

text \<open>Claim C8 as stated fails: the member \<^verbatim>\<open>size\<close> of the target is the number 42, not
  a function, and \<^verbatim>\<open>before(target, "size", advice)\<close> completes and returns 42.\<close>

theorem non_callable_member_counterexample:
  "fst (before target_heap (Obj 0) (Some ''size'') (Fun (Native 1))) = Return (Num 42)
   \<and> target_heap (Obj 0) ''size'' = Num 42
   \<and> typeof (Num 42) \<noteq> ''function''"
  by (simp add: wrap_defs)

text \<open>
  Claim C10, as the code has it. With the target \<open>null\<close> and a callable advice, each of
  the four operations raises the host's \<open>TypeError\<close> when the name of the method is not
  empty, and \<open>InvalidMethod\<close> when the name is empty or absent (the test \<^verbatim>\<open>!method\<close> comes
  before the member access); it never raises \<open>InvalidObject\<close>, and the heap is unchanged.
\<close>

theorem null_target:
  assumes "op \<in> {before, after, handle, around}" and "typeof fun = ''function''"
  shows "op h Null method fun =
           (if falsy method then (Throw (AopError InvalidMethod), h) else (Throw TypeError, h))"
proof -
  from assms(1) obtain c where "op = install c" by (rule wrap_cases)
  with assms(2) show ?thesis by (simp add: install_null)
qed

theorem null_target_witness:
  "handle \<in> {before, after, handle, around} \<and> typeof (Fun (Native 1)) = ''function''
   \<and> handle target_heap Null (Some ''greet'') (Fun (Native 1)) = (Throw TypeError, target_heap)
   \<and> handle target_heap Null None (Fun (Native 1)) = (Throw (AopError InvalidMethod), target_heap)"
proof -
  have a: "handle \<in> {before, after, handle, around}" by simp
  have b: "typeof (Fun (Native 1)) = ''function''" by simp
  from null_target [OF a b, of target_heap "Some ''greet''"] null_target [OF a b, of target_heap None]
  show ?thesis using a b by simp
qed

text \<open>Claim C10 as stated fails: \<^verbatim>\<open>before(null, "", advice)\<close> with a callable advice raises
  \<open>InvalidMethod\<close>, an error of the library, and no \<open>TypeError\<close>.\<close>

theorem null_target_empty_name_counterexample:
  "typeof (Fun (Native 1)) = ''function''
   \<and> before target_heap Null (Some '''') (Fun (Native 1))
       = (Throw (AopError InvalidMethod), target_heap)"
  by (simp add: before_def check_def)

section \<open>Chains and the reserved error\<close>

text \<open>
  Claim C7, as the code has it. After \<^verbatim>\<open>before(target, m, advice1)\<close> and then
  \<^verbatim>\<open>before(target, m, advice2)\<close> on a member that is a function, the second wrap
  captured the first wrapper as its original (composition, not overwrite), and an
  invocation of the final method runs \<open>advice2\<close> first, then \<open>advice1\<close> (on the arguments
  \<open>advice2\<close> chose), then the underlying original: the advice wrapped last runs first.
\<close>

theorem chained_before:
  assumes "before h obj method advice1 = (Return orig, h1)"
    and "before h1 obj method advice2 = (Return first, h2)"
    and "typeof orig = ''function''"
  shows "first = Fun (BeforeFn orig advice1)
       \<and> h2 obj (key method) = Fun (BeforeFn first advice2)
       \<and> run (Suc (Suc n)) env (h2 obj (key method)) r A h3 =
           (case run (Suc n) env advice2 r A h3 of
              None \<Rightarrow> None
            | Some (Throw e, h4) \<Rightarrow> Some (Throw e, h4)
            | Some (Return v2, h4) \<Rightarrow>
                (case run n env advice1 r (spec_before_arguments v2 A) h4 of
                   None \<Rightarrow> None
                 | Some (Throw e, h5) \<Rightarrow> Some (Throw e, h5)
                 | Some (Return v1, h5) \<Rightarrow>
                     run n env orig r
                       (spec_before_arguments v1 (spec_before_arguments v2 A)) h5))"
proof -
  from assms(1) have w1: "h1 obj (key method) = Fun (BeforeFn orig advice1)"
    and f1: "typeof advice1 = ''function''"
    using installed [of BeforeFn h obj "method" advice1 orig h1] by (simp_all add: before_install)
  from assms(2) have "first = h1 obj (key method)"
    using install_Return [of BeforeFn h1 obj "method" advice2 first h2] by (simp add: before_install)
  with w1 have first: "first = Fun (BeforeFn orig advice1)" by simp
  from assms(2) have w2: "h2 obj (key method) = Fun (BeforeFn first advice2)"
    and f2: "typeof advice2 = ''function''"
    using installed [of BeforeFn h1 obj "method" advice2 first h2] by (simp_all add: before_install)
  have tf: "typeof first = ''function''" by (simp add: first)
  have inner: "run (Suc n) env first r B h4 =
           (case run n env advice1 r B h4 of
              None \<Rightarrow> None
            | Some (Throw e, h5) \<Rightarrow> Some (Throw e, h5)
            | Some (Return v1, h5) \<Rightarrow> run n env orig r (spec_before_arguments v1 B) h5)" for B h4
    unfolding first by (rule before_closure [OF f1 assms(3)])
  have outer: "run (Suc (Suc n)) env (h2 obj (key method)) r A h3 =
           (case run (Suc n) env advice2 r A h3 of
              None \<Rightarrow> None
            | Some (Throw e, h4) \<Rightarrow> Some (Throw e, h4)
            | Some (Return v2, h4) \<Rightarrow> run (Suc n) env first r (spec_before_arguments v2 A) h4)"
    unfolding w2 by (rule before_closure [OF f2 tf])
  have "run (Suc (Suc n)) env (h2 obj (key method)) r A h3 =
           (case run (Suc n) env advice2 r A h3 of
              None \<Rightarrow> None
            | Some (Throw e, h4) \<Rightarrow> Some (Throw e, h4)
            | Some (Return v2, h4) \<Rightarrow>
                (case run n env advice1 r (spec_before_arguments v2 A) h4 of
                   None \<Rightarrow> None
                 | Some (Throw e, h5) \<Rightarrow> Some (Throw e, h5)
                 | Some (Return v1, h5) \<Rightarrow>
                     run n env orig r
                       (spec_before_arguments v1 (spec_before_arguments v2 A)) h5))"
    unfolding outer
    by (auto simp del: run.simps simp: inner split: option.splits outcome.splits prod.splits)
  with first w2 show ?thesis by blast
qed

theorem chained_before_witness:
  "before target_heap (Obj 0) (Some ''work'') (Fun (Native 2))
     = (Return (Fun (Native 4)), snd (before target_heap (Obj 0) (Some ''work'') (Fun (Native 2))))
   \<and> before (snd (before target_heap (Obj 0) (Some ''work'') (Fun (Native 2))))
        (Obj 0) (Some ''work'') (Fun (Native 3))
     = (Return (Fun (BeforeFn (Fun (Native 4)) (Fun (Native 2)))), chained_heap)
   \<and> typeof (Fun (Native 4)) = ''function''
   \<and> chained_heap (Obj 0) ''work''
     = Fun (BeforeFn (Fun (BeforeFn (Fun (Native 4)) (Fun (Native 2)))) (Fun (Native 3)))
   \<and> ended (run (Suc (Suc (Suc 0))) caller (chained_heap (Obj 0) ''work'') (Obj 0) [] chained_heap)
     = Some (Return (Num 7))"
proof -
  let ?h1 = "snd (before target_heap (Obj 0) (Some ''work'') (Fun (Native 2)))"
  have a: "before target_heap (Obj 0) (Some ''work'') (Fun (Native 2)) = (Return (Fun (Native 4)), ?h1)"
    by (simp add: wrap_defs)
  have b: "before ?h1 (Obj 0) (Some ''work'') (Fun (Native 3))
             = (Return (Fun (BeforeFn (Fun (Native 4)) (Fun (Native 2)))), chained_heap)"
    by (simp add: chained_heap_def wrap_defs)
  have c: "typeof (Fun (Native 4)) = ''function''" by simp
  note t = chained_before [OF a b c, of "Suc 0" caller "Obj 0" "[]" chained_heap, unfolded key.simps]
  note w = t [THEN conjunct2, THEN conjunct1]
  have "ended (run (Suc (Suc (Suc 0))) caller (chained_heap (Obj 0) ''work'') (Obj 0) [] chained_heap)
      = Some (Return (Num 7))"
    unfolding t [THEN conjunct2, THEN conjunct2] by (simp add: caller_defs)
  with a b c w show ?thesis by simp
qed

text \<open>Claim C7 as stated fails: \<open>advice1\<close> writes 1 in the journal, \<open>advice2\<close> writes 2
  and the original writes 0; after an invocation of the twice-wrapped method the
  journal reads \<^verbatim>\<open>[2, 1, 0]\<close>, not \<^verbatim>\<open>[1, 2, 0]\<close>.\<close>

theorem chained_before_counterexample:
  "left ''journal'' (run (Suc (Suc (Suc 0))) caller (chained_heap (Obj 0) ''work'') (Obj 0) [] chained_heap)
     = Arr [Num 2, Num 1, Num 0]
   \<and> left ''journal'' (run (Suc (Suc (Suc 0))) caller (chained_heap (Obj 0) ''work'') (Obj 0) [] chained_heap)
     \<noteq> Arr [Num 1, Num 2, Num 0]"
  by (simp add: chained_heap_def wrap_defs caller_defs apply_method_def)




end
